theory Spec2Isabelle
  imports Main
begin

section \<open>JavaScript values\<close>

text \<open>
  The handlers of \<^verbatim>\<open>pharmacy_agent.js\<close> work on values produced by \<^verbatim>\<open>JSON.parse\<close>.
  A JSON value is a \<open>json\<close>; a property read that finds nothing yields \<^verbatim>\<open>undefined\<close>,
  which is \<open>None\<close> of \<open>jsval\<close>. Numbers are the integer-valued ones (\<open>JNum\<close>):
  fractional values are IEEE doubles and play no part in the relay.
\<close>

datatype json =
    JNull
  | JBool bool
  | JNum int
  | JStr string
  | JArr "json list"
  | JObj "(string \<times> json) list"

type_synonym jsval = "json option"

text \<open>
  \<^verbatim>\<open>a === b\<close> on two values that come from different parsed messages: primitives are
  compared by value, arrays and objects by identity, and two separately parsed arrays or
  objects are never the same object.
\<close>

fun strict_eq :: "jsval \<Rightarrow> jsval \<Rightarrow> bool" where
  "strict_eq None None = True"
| "strict_eq (Some JNull) (Some JNull) = True"
| "strict_eq (Some (JBool a)) (Some (JBool b)) = (a = b)"
| "strict_eq (Some (JNum a)) (Some (JNum b)) = (a = b)"
| "strict_eq (Some (JStr a)) (Some (JStr b)) = (a = b)"
| "strict_eq _ _ = False"

text \<open>
  An object literal \<^verbatim>\<open>{k1: v1, ..., kn: vn}\<close> handed to \<^verbatim>\<open>JSON.stringify\<close>: a property
  whose value is \<^verbatim>\<open>undefined\<close> is left out of the serialised object. A message put on a
  channel is recorded as the JSON value whose text is sent.
\<close>

fun own_fields :: "(string \<times> jsval) list \<Rightarrow> (string \<times> json) list" where
  "own_fields [] = []"
| "own_fields ((k, None) # ps) = own_fields ps"
| "own_fields ((k, Some v) # ps) = (k, v) # own_fields ps"

definition stringify_object :: "(string \<times> jsval) list \<Rightarrow> json" where
  "stringify_object ps = JObj (own_fields ps)"

text \<open>Reading a property of a serialised value (\<open>None\<close> when it has no such property).\<close>

fun field :: "json \<Rightarrow> string \<Rightarrow> jsval" where
  "field (JObj ps) k = map_of ps k"
| "field _ k = None"

text \<open>
  \<^verbatim>\<open>s += v\<close> on a string \<open>s\<close> where \<open>v\<close> is the \<^verbatim>\<open>delta\<close> of an event: a string is
  appended as it is, and a missing \<^verbatim>\<open>delta\<close> (\<^verbatim>\<open>undefined\<close>) appends the text
  \<^verbatim>\<open>undefined\<close>.
\<close>

definition append_delta :: "string \<Rightarrow> string option \<Rightarrow> string" where
  "append_delta s d = s @ (case d of None \<Rightarrow> ''undefined'' | Some f \<Rightarrow> f)"

section \<open>Channels, exceptions and the console\<close>

text \<open>
  Both channels are browser objects with a ready state. \<^verbatim>\<open>WebSocket.send\<close> raises
  \<^verbatim>\<open>InvalidStateError\<close> while the socket is connecting, transmits when it is open, and
  discards the data without raising when it is closing or closed.
  \<^verbatim>\<open>RTCDataChannel.send\<close> raises \<^verbatim>\<open>InvalidStateError\<close> in every state but open.
  \<^verbatim>\<open>close()\<close> on either moves a connecting or open channel to closing and leaves a
  closing or closed one as it is.
\<close>

datatype ready_state = CONNECTING | OPEN | CLOSING | CLOSED

datatype exn = SyntaxError | TypeError | InvalidStateError

fun close_channel :: "ready_state \<Rightarrow> ready_state" where
  "close_channel CONNECTING = CLOSING"
| "close_channel OPEN = CLOSING"
| "close_channel CLOSING = CLOSING"
| "close_channel CLOSED = CLOSED"

section \<open>The data model\<close>

text \<open>An entry of \<^verbatim>\<open>pendingCalls\<close>: \<^verbatim>\<open>{ call_id, name, arguments }\<close>.\<close>

record pending_call =
  call_id :: jsval
  name :: jsval
  arguments :: string

text \<open>
  What the handler reads of \<^verbatim>\<open>msg.item\<close>. A value that is neither \<^verbatim>\<open>null\<close> nor
  \<^verbatim>\<open>undefined\<close> and has none of the three properties (a number, a string, an array)
  reads as \<^verbatim>\<open>undefined\<close> in each field.
\<close>

record call_item =
  item_type :: jsval
  item_call_id :: jsval
  item_name :: jsval

text \<open>
  What the handler reads of a parsed data-channel message \<^verbatim>\<open>msg\<close>:
  \<^verbatim>\<open>msg.type\<close>; \<^verbatim>\<open>msg.output_index\<close>, an integer, \<open>None\<close> when it is absent or
  \<^verbatim>\<open>null\<close> (the two cases \<^verbatim>\<open>??\<close> treats alike); \<^verbatim>\<open>msg.item\<close>, \<open>None\<close> when it is
  absent or \<^verbatim>\<open>null\<close> (the two cases \<^verbatim>\<open>??\<close> and \<^verbatim>\<open>?.\<close> treat alike);
  \<^verbatim>\<open>msg.delta\<close>, a string when present; and \<^verbatim>\<open>msg.call_id\<close>, \<^verbatim>\<open>msg.name\<close>, which the
  legacy path \<^verbatim>\<open>msg.item ?? msg\<close> reads. The types of \<^verbatim>\<open>output_index\<close> and \<^verbatim>\<open>delta\<close>
  are those of the provider's event schema: a message with an \<^verbatim>\<open>output_index\<close> that is
  not an integer, or a \<^verbatim>\<open>delta\<close> that is not a string, is not a message of this model.
\<close>

record oai_msg =
  msg_type :: jsval
  output_index :: "int option"
  item :: "call_item option"
  delta :: "string option"
  msg_call_id :: jsval
  msg_name :: jsval

text \<open>
  \<^verbatim>\<open>JSON.parse(event.data)\<close> on the data channel: it raises \<^verbatim>\<open>SyntaxError\<close>, or yields
  \<^verbatim>\<open>null\<close>, whose properties cannot be read (\<^verbatim>\<open>TypeError\<close>), or yields a value whose
  properties can be read. A number, a boolean, a string or an array is such a value, with
  every property the handler reads absent.
\<close>

datatype event_data = NotJson | JsonNull | Msg oai_msg

text \<open>What the handler reads of a parsed backend reply \<^verbatim>\<open>response\<close>.\<close>

record backend_response =
  status :: jsval
  response_call_id :: jsval
  result :: jsval
  message :: jsval

datatype response_data = ResponseNotJson | ResponseNull | Response backend_response

text \<open>
  The browser console. \<open>OaiEvent\<close> is the collapsed group of
  \<^verbatim>\<open>logMessage_oai_events\<close>, \<open>CallStart\<close> and \<open>CallExec\<close> the two \<^verbatim>\<open>console.log\<close>
  lines of the relay, \<open>ConsoleError\<close> the \<^verbatim>\<open>console.error\<close> of the catch block, and
  \<open>LogMessage\<close> a call of \<^verbatim>\<open>logMessage(sender, message)\<close>. Only what the page's own
  code writes is recorded, not what the browser prints by itself (for an exception that
  nothing caught, say).
\<close>

datatype sender = SenderSystem | SenderError | SenderBackend

datatype log_text =
    SessionEnded
  | ExnMessage exn
  | ResponseObject "backend_response option"
  | ResultSent
  | ExecFailed jsval

datatype log_entry =
    OaiEvent "oai_msg option"
  | CallStart jsval jsval
  | CallExec jsval string
  | ConsoleError exn
  | LogMessage sender log_text

text \<open>
  The variables of the page the relay uses: the table \<^verbatim>\<open>pendingCalls\<close> keyed by slot
  index, the four session objects (\<open>None\<close> while the variable is unassigned; for a
  channel the value is its ready state, for the stream and the peer connection whether
  it is still live), \<^verbatim>\<open>currentUIState\<close>, what each channel has transmitted, and the
  console.
\<close>

record relay =
  pendingCalls :: "int \<rightharpoonup> pending_call"
  localStream :: "bool option"
  dataChannel :: "ready_state option"
  functionCallSocket :: "ready_state option"
  peerConnection :: "bool option"
  currentUIState :: string
  dc_sent :: "json list"
  ws_sent :: "json list"
  console :: "log_entry list"

text \<open>How a piece of code ends: normally, or by raising, with the state it leaves.\<close>

datatype completion = Normal relay | Throw exn relay

fun and_then :: "completion \<Rightarrow> (relay \<Rightarrow> completion) \<Rightarrow> completion" where
  "and_then (Normal s) f = f s"
| "and_then (Throw e s) f = Throw e s"

section \<open>Sending\<close>

text \<open>\<^verbatim>\<open>functionCallSocket.send(text)\<close>; on an unassigned variable the call is a \<^verbatim>\<open>TypeError\<close>.\<close>

definition ws_send :: "json \<Rightarrow> relay \<Rightarrow> completion" where
  "ws_send m s =
     (case functionCallSocket s of
        None \<Rightarrow> Throw TypeError s
      | Some CONNECTING \<Rightarrow> Throw InvalidStateError s
      | Some OPEN \<Rightarrow> Normal (s\<lparr>ws_sent := ws_sent s @ [m]\<rparr>)
      | Some CLOSING \<Rightarrow> Normal s
      | Some CLOSED \<Rightarrow> Normal s)"

text \<open>\<^verbatim>\<open>dataChannel.send(text)\<close>.\<close>

definition dc_send :: "json \<Rightarrow> relay \<Rightarrow> completion" where
  "dc_send m s =
     (case dataChannel s of
        None \<Rightarrow> Throw TypeError s
      | Some OPEN \<Rightarrow> Normal (s\<lparr>dc_sent := dc_sent s @ [m]\<rparr>)
      | Some CONNECTING \<Rightarrow> Throw InvalidStateError s
      | Some CLOSING \<Rightarrow> Throw InvalidStateError s
      | Some CLOSED \<Rightarrow> Throw InvalidStateError s)"

section \<open>Logging\<close>

definition logMessage :: "sender \<Rightarrow> log_text \<Rightarrow> relay \<Rightarrow> relay" where
  "logMessage who what s = s\<lparr>console := console s @ [LogMessage who what]\<rparr>"

text \<open>
  \<^verbatim>\<open>logMessage_oai_events\<close> prints nothing for the two delta event types and a group for
  every other message (\<^verbatim>\<open>null\<close> included, under the type \<^verbatim>\<open>unknown\<close>).
\<close>

definition logMessage_oai_events :: "oai_msg option \<Rightarrow> relay \<Rightarrow> relay" where
  "logMessage_oai_events m s =
     (if (case m of
            None \<Rightarrow> False
          | Some msg \<Rightarrow>
              msg_type msg = Some (JStr ''response.function_call_arguments.delta'') \<or>
              msg_type msg = Some (JStr ''response.audio_transcript.delta''))
      then s
      else s\<lparr>console := console s @ [OaiEvent m]\<rparr>)"

section \<open>The data-channel handler\<close>

text \<open>The slot of a message: \<^verbatim>\<open>msg.output_index ?? 0\<close>.\<close>

definition slot :: "oai_msg \<Rightarrow> int" where
  "slot msg = (case output_index msg of None \<Rightarrow> 0 | Some i \<Rightarrow> i)"

text \<open>\<^verbatim>\<open>msg.item ?? msg\<close>: the nested item, or the message itself read as an item.\<close>

definition item_or_msg :: "oai_msg \<Rightarrow> call_item" where
  "item_or_msg msg =
     (case item msg of
        Some it \<Rightarrow> it
      | None \<Rightarrow> \<lparr>item_type = msg_type msg, item_call_id = msg_call_id msg,
                  item_name = msg_name msg\<rparr>)"

text \<open>The payload of a dispatch: \<^verbatim>\<open>JSON.stringify(call)\<close>.\<close>

definition call_payload :: "pending_call \<Rightarrow> json" where
  "call_payload c =
     stringify_object
       [(''call_id'', call_id c), (''name'', name c), (''arguments'', Some (JStr (arguments c)))]"

text \<open>The three function-calling cases of the \<^verbatim>\<open>switch\<close>.\<close>

definition output_item_added :: "oai_msg \<Rightarrow> relay \<Rightarrow> completion" where
  "output_item_added msg s =
     (let it = item_or_msg msg in
      if item_type it = Some (JStr ''function_call'')
      then Normal (s\<lparr>pendingCalls := (pendingCalls s)(slot msg \<mapsto>
                          \<lparr>call_id = item_call_id it, name = item_name it, arguments = ''''\<rparr>),
                      console := console s @ [CallStart (item_name it) (item_call_id it)]\<rparr>)
      else Normal s)"

definition arguments_delta :: "oai_msg \<Rightarrow> relay \<Rightarrow> completion" where
  "arguments_delta msg s =
     (let idx = slot msg in
      case pendingCalls s idx of
        None \<Rightarrow> Normal s
      | Some c \<Rightarrow>
          Normal (s\<lparr>pendingCalls := (pendingCalls s)(idx \<mapsto>
                       c\<lparr>arguments := append_delta (arguments c) (delta msg)\<rparr>)\<rparr>))"

definition output_item_done :: "oai_msg \<Rightarrow> relay \<Rightarrow> completion" where
  "output_item_done msg s =
     (case item msg of
        None \<Rightarrow> Normal s
      | Some it \<Rightarrow>
          if item_type it \<noteq> Some (JStr ''function_call'') then Normal s
          else
            (let idx = slot msg in
             case pendingCalls s idx of
               None \<Rightarrow> Normal s
             | Some c \<Rightarrow>
                 if strict_eq (call_id c) (item_call_id it)
                 then and_then (ws_send (call_payload c) s)
                        (\<lambda>s1. Normal (s1\<lparr>pendingCalls := (pendingCalls s1)(idx := None),
                                           console := console s1 @
                                             [CallExec (name c) (arguments c)]\<rparr>))
                 else Normal s))"

text \<open>
  The \<^verbatim>\<open>switch (msg.type)\<close>. The four cases before the function-calling ones touch the
  chat bubbles and the avatar only, which are not part of \<open>relay\<close>; like an unknown type
  they leave it as it is.
\<close>

definition switch_type :: "oai_msg \<Rightarrow> relay \<Rightarrow> completion" where
  "switch_type msg s =
     (if msg_type msg = Some (JStr ''response.output_item.added'') \<or>
         msg_type msg = Some (JStr ''response.function_call.created'')
      then output_item_added msg s
      else if msg_type msg = Some (JStr ''response.function_call_arguments.delta'')
      then arguments_delta msg s
      else if msg_type msg = Some (JStr ''response.output_item.done'')
      then output_item_done msg s
      else Normal s)"

text \<open>The body of the \<^verbatim>\<open>try\<close>, from \<^verbatim>\<open>JSON.parse\<close> on.\<close>

definition try_body :: "event_data \<Rightarrow> relay \<Rightarrow> completion" where
  "try_body d s =
     (case d of
        NotJson \<Rightarrow> Throw SyntaxError s
      | JsonNull \<Rightarrow> Throw TypeError (logMessage_oai_events None s)
      | Msg msg \<Rightarrow> switch_type msg (logMessage_oai_events (Some msg) s))"

text \<open>The \<^verbatim>\<open>catch (e)\<close> block: \<^verbatim>\<open>console.error\<close>, then \<^verbatim>\<open>logMessage("Error", e.message)\<close>.\<close>

definition catch_block :: "exn \<Rightarrow> relay \<Rightarrow> relay" where
  "catch_block e s = logMessage SenderError (ExnMessage e) (s\<lparr>console := console s @ [ConsoleError e]\<rparr>)"

text \<open>\<^verbatim>\<open>dataChannel.onmessage\<close>: nothing escapes it.\<close>

definition dataChannel_onmessage :: "event_data \<Rightarrow> relay \<Rightarrow> relay" where
  "dataChannel_onmessage d s =
     (case try_body d s of Normal s' \<Rightarrow> s' | Throw e s' \<Rightarrow> catch_block e s')"

text \<open>Messages handled one after the other, in arrival order.\<close>

fun run :: "event_data list \<Rightarrow> relay \<Rightarrow> relay" where
  "run [] s = s"
| "run (d # ds) s = run ds (dataChannel_onmessage d s)"

section \<open>The backend-socket handler\<close>

text \<open>
  \<^verbatim>\<open>functionCallSocket.onmessage\<close>. The text of \<^verbatim>\<open>JSON.stringify(response.result)\<close> is
  the browser's; the handler takes it as the function \<open>stringify\<close>. Of \<^verbatim>\<open>undefined\<close>,
  \<^verbatim>\<open>JSON.stringify\<close> is \<^verbatim>\<open>undefined\<close>. The handler has no \<^verbatim>\<open>try\<close>: what is raised in it
  leaves it.
\<close>

definition tool_output_success :: "(json \<Rightarrow> string) \<Rightarrow> backend_response \<Rightarrow> json" where
  "tool_output_success stringify r =
     stringify_object
       [(''type'', Some (JStr ''conversation.item.create'')),
        (''item'', Some (stringify_object
           [(''type'', Some (JStr ''function_call_output'')),
            (''call_id'', response_call_id r),
            (''output'', map_option (\<lambda>v. JStr (stringify v)) (result r))]))]"

definition tool_output_failure :: "backend_response \<Rightarrow> json" where
  "tool_output_failure r =
     stringify_object
       [(''type'', Some (JStr ''conversation.item.create'')),
        (''item'', Some (stringify_object
           [(''type'', Some (JStr ''function_call_output'')),
            (''call_id'', response_call_id r),
            (''error'', message r)]))]"

definition response_create :: json where
  "response_create = stringify_object [(''type'', Some (JStr ''response.create''))]"

definition functionCallSocket_onmessage ::
  "(json \<Rightarrow> string) \<Rightarrow> response_data \<Rightarrow> relay \<Rightarrow> completion" where
  "functionCallSocket_onmessage stringify d s =
     (case d of
        ResponseNotJson \<Rightarrow> Throw SyntaxError s
      | ResponseNull \<Rightarrow> Throw TypeError (logMessage SenderBackend (ResponseObject None) s)
      | Response r \<Rightarrow>
          (let s1 = logMessage SenderBackend (ResponseObject (Some r)) s in
           if status r = Some (JStr ''success'')
           then and_then (dc_send (tool_output_success stringify r) s1)
                  (\<lambda>s2. and_then (dc_send response_create s2)
                     (\<lambda>s3. Normal (logMessage SenderSystem ResultSent s3)))
           else and_then (dc_send (tool_output_failure r) s1)
                  (\<lambda>s2. and_then (dc_send response_create s2)
                     (\<lambda>s3. Normal (logMessage SenderError (ExecFailed (message r)) s3)))))"

section \<open>Teardown\<close>

text \<open>
  \<^verbatim>\<open>endSession\<close>: each of the four session objects is closed if its variable is
  assigned, then \<^verbatim>\<open>updateUI("ready")\<close> and a log line. \<^verbatim>\<open>dataChannel\<close> is a channel of
  \<^verbatim>\<open>peerConnection\<close>, and closing a peer connection puts its channels in the closed state.
\<close>

definition endSession :: "relay \<Rightarrow> relay" where
  "endSession s =
     logMessage SenderSystem SessionEnded
       (s\<lparr>localStream := map_option (\<lambda>_. False) (localStream s),
          dataChannel :=
            (case peerConnection s of
               None \<Rightarrow> map_option close_channel (dataChannel s)
             | Some _ \<Rightarrow> map_option (\<lambda>_. CLOSED) (dataChannel s)),
          functionCallSocket := map_option close_channel (functionCallSocket s),
          peerConnection := map_option (\<lambda>_. False) (peerConnection s),
          currentUIState := ''ready''\<rparr>)"

section \<open>A session used for concrete runs\<close>

text \<open>
  The text \<^verbatim>\<open>JSON.stringify\<close> gives for a value with integer numbers and strings free of
  control characters: no white space, a string in double quotes with the double quote and
  the backslash escaped. It stands for the browser's function where a run needs one.
\<close>

definition digit_char :: "nat \<Rightarrow> char" where
  "digit_char d = ''0123456789'' ! (d mod 10)"

fun decimal :: "nat \<Rightarrow> string" where
  "decimal n = (if n < 10 then [digit_char n] else decimal (n div 10) @ [digit_char n])"

definition quoted :: "string \<Rightarrow> string" where
  "quoted s =
     [CHR 0x22] @
     concat (map (\<lambda>c. if c = CHR 0x22 \<or> c = CHR 0x5C then [CHR 0x5C, c] else [c]) s) @
     [CHR 0x22]"

fun separated :: "string list \<Rightarrow> string" where
  "separated [] = []"
| "separated [x] = x"
| "separated (x # y # zs) = x @ '','' @ separated (y # zs)"

fun compact_json :: "json \<Rightarrow> string" where
  "compact_json JNull = ''null''"
| "compact_json (JBool b) = (if b then ''true'' else ''false'')"
| "compact_json (JNum n) = (if n < 0 then ''-'' @ decimal (nat (- n)) else decimal (nat n))"
| "compact_json (JStr s) = quoted s"
| "compact_json (JArr vs) = ''['' @ separated (map compact_json vs) @ '']''"
| "compact_json (JObj ps) =
     ''{'' @ separated (map (\<lambda>p. quoted (fst p) @ '':'' @ compact_json (snd p)) ps) @ ''}''"

text \<open>The page when it is ready for a session, and a session with both channels open.\<close>

definition page_loaded :: relay where
  "page_loaded =
     \<lparr>pendingCalls = Map.empty, localStream = None, dataChannel = None,
      functionCallSocket = None, peerConnection = None, currentUIState = ''ready'',
      dc_sent = [], ws_sent = [], console = []\<rparr>"

definition in_session :: relay where
  "in_session =
     page_loaded\<lparr>localStream := Some True, dataChannel := Some OPEN,
       functionCallSocket := Some OPEN, peerConnection := Some True,
       currentUIState := ''active''\<rparr>"

text \<open>
  The events of one tool call: \<^verbatim>\<open>get_stock\<close> under the call id \<^verbatim>\<open>c1\<close> in slot 0, its
  arguments in two fragments.
\<close>

definition get_stock_item :: call_item where
  "get_stock_item =
     \<lparr>item_type = Some (JStr ''function_call''), item_call_id = Some (JStr ''c1''),
      item_name = Some (JStr ''get_stock'')\<rparr>"

definition get_stock_added :: oai_msg where
  "get_stock_added =
     \<lparr>msg_type = Some (JStr ''response.output_item.added''), output_index = Some 0,
      item = Some get_stock_item, delta = None, msg_call_id = None, msg_name = None\<rparr>"

definition fragment :: "string \<Rightarrow> oai_msg" where
  "fragment f =
     \<lparr>msg_type = Some (JStr ''response.function_call_arguments.delta''), output_index = None,
      item = None, delta = Some f, msg_call_id = None, msg_name = None\<rparr>"

definition sym_fragment :: string where
  \<open>sym_fragment = ''{"sym":''\<close>

definition abc_fragment :: string where
  \<open>abc_fragment = ''"ABC"}''\<close>

definition get_stock_done :: oai_msg where
  "get_stock_done =
     \<lparr>msg_type = Some (JStr ''response.output_item.done''), output_index = Some 0,
      item = Some get_stock_item, delta = None, msg_call_id = None, msg_name = None\<rparr>"

definition get_stock_call :: pending_call where
  \<open>get_stock_call =
     \<lparr>call_id = Some (JStr ''c1''), name = Some (JStr ''get_stock''),
      arguments = ''{"sym":"ABC"}''\<rparr>\<close>

text \<open>The session with that call assembled and not yet finalized.\<close>

definition call_assembled :: relay where
  "call_assembled = in_session\<lparr>pendingCalls := [0 \<mapsto> get_stock_call]\<rparr>"

text \<open>A finalize for slot 0 that carries another call id, and a message item in slot 0.\<close>

definition other_call_done :: oai_msg where
  "other_call_done =
     get_stock_done\<lparr>item := Some (get_stock_item\<lparr>item_call_id := Some (JStr ''c2'')\<rparr>)\<rparr>"

definition message_item_done :: oai_msg where
  "message_item_done =
     get_stock_done\<lparr>item := Some \<lparr>item_type = Some (JStr ''message''), item_call_id = None,
       item_name = None\<rparr>\<rparr>"

text \<open>Backend replies: a success with a payload, a failure, and one with no status.\<close>

definition price_reply :: backend_response where
  "price_reply =
     \<lparr>status = Some (JStr ''success''), response_call_id = Some (JStr ''c1''),
      result = Some (JObj [(''price'', JNum 10)]), message = None\<rparr>"

definition boom_reply :: backend_response where
  "boom_reply =
     \<lparr>status = Some (JStr ''failure''), response_call_id = Some (JStr ''c1''),
      result = None, message = Some (JStr ''boom'')\<rparr>"

definition bare_reply :: backend_response where
  "bare_reply =
     \<lparr>status = None, response_call_id = Some (JStr ''c1''), result = None, message = None\<rparr>"

text \<open>An event that puts a function call in slot \<open>k\<close>.\<close>

definition creates :: "int \<Rightarrow> event_data \<Rightarrow> bool" where
  "creates k d =
     (case d of
        Msg m \<Rightarrow>
          (msg_type m = Some (JStr ''response.output_item.added'') \<or>
           msg_type m = Some (JStr ''response.function_call.created'')) \<and>
          item_type (item_or_msg m) = Some (JStr ''function_call'') \<and> slot m = k
      | _ \<Rightarrow> False)"

section \<open>Steps of the data-channel handler\<close>

text \<open>Values that are \<^verbatim>\<open>===\<close> are equal, so different values are never \<^verbatim>\<open>===\<close>.\<close>

lemma strict_eq_same: "strict_eq a b \<Longrightarrow> a = b"
  by (induction a b rule: strict_eq.induct) auto

lemma run_append: "run (xs @ ys) s = run ys (run xs s)"
  by (induction xs arbitrary: s) auto

lemma foldl_append_delta: "foldl append_delta a (map Some fs) = a @ concat fs"
  by (induction fs arbitrary: a) (auto simp: append_delta_def)

text \<open>
  What one event does to the state, case by case: a delta for a slot that holds an entry,
  a run of such deltas, a creation, and a finalize that passes the gate with the backend
  socket open, closing or closed, or connecting, and a finalize for an empty slot.
\<close>

lemma delta_step:
  assumes "msg_type d = Some (JStr ''response.function_call_arguments.delta'')"
    and "pendingCalls s (slot d) = Some c"
  shows "dataChannel_onmessage (Msg d) s =
         s\<lparr>pendingCalls := (pendingCalls s)(slot d \<mapsto>
              c\<lparr>arguments := append_delta (arguments c) (delta d)\<rparr>)\<rparr>"
  using assms
  by (simp add: dataChannel_onmessage_def try_body_def logMessage_oai_events_def
      switch_type_def arguments_delta_def)

lemma run_deltas:
  assumes "\<forall>d \<in> set ds. msg_type d = Some (JStr ''response.function_call_arguments.delta'') \<and> slot d = k"
    and "pendingCalls s k = Some c"
  shows "run (map Msg ds) s =
         s\<lparr>pendingCalls := (pendingCalls s)(k \<mapsto>
              c\<lparr>arguments := foldl append_delta (arguments c) (map delta ds)\<rparr>)\<rparr>"
  using assms
proof (induction ds arbitrary: s c)
  case Nil
  then show ?case by (simp add: map_upd_triv)
next
  case (Cons d ds)
  let ?c' = "c\<lparr>arguments := append_delta (arguments c) (delta d)\<rparr>"
  let ?s' = "s\<lparr>pendingCalls := (pendingCalls s)(k \<mapsto> ?c')\<rparr>"
  have step: "dataChannel_onmessage (Msg d) s = ?s'"
    using Cons.prems delta_step [of d s c] by simp
  have "run (map Msg ds) ?s' =
        ?s'\<lparr>pendingCalls := (pendingCalls ?s')(k \<mapsto>
              ?c'\<lparr>arguments := foldl append_delta (arguments ?c') (map delta ds)\<rparr>)\<rparr>"
    using Cons.prems by (intro Cons.IH) simp_all
  also have "\<dots> = s\<lparr>pendingCalls := (pendingCalls s)(k \<mapsto>
              c\<lparr>arguments := foldl append_delta (arguments c) (map delta (d # ds))\<rparr>)\<rparr>"
    by (rule relay.equality) simp_all
  finally show ?case using step by (simp add: fun_upd_def)
qed

lemma added_step:
  assumes "msg_type a = Some (JStr ''response.output_item.added'') \<or>
           msg_type a = Some (JStr ''response.function_call.created'')"
    and "item a = Some it" and "item_type it = Some (JStr ''function_call'')"
  shows "dataChannel_onmessage (Msg a) s =
         s\<lparr>pendingCalls := (pendingCalls s)(slot a \<mapsto>
              \<lparr>call_id = item_call_id it, name = item_name it, arguments = ''''\<rparr>),
            console := console s @ [OaiEvent (Some a), CallStart (item_name it) (item_call_id it)]\<rparr>"
  using assms
  by (auto simp add: dataChannel_onmessage_def try_body_def logMessage_oai_events_def
      switch_type_def output_item_added_def item_or_msg_def)

lemma done_step_sent:
  assumes "msg_type m = Some (JStr ''response.output_item.done'')"
    and "item m = Some it" and "item_type it = Some (JStr ''function_call'')"
    and "pendingCalls s (slot m) = Some c"
    and "strict_eq (call_id c) (item_call_id it)"
    and "functionCallSocket s = Some OPEN"
  shows "dataChannel_onmessage (Msg m) s =
         s\<lparr>ws_sent := ws_sent s @ [call_payload c],
            pendingCalls := (pendingCalls s)(slot m := None),
            console := console s @ [OaiEvent (Some m), CallExec (name c) (arguments c)]\<rparr>"
  using assms
  by (simp add: dataChannel_onmessage_def try_body_def logMessage_oai_events_def
      switch_type_def output_item_done_def ws_send_def)

lemma done_step_discarded:
  assumes "msg_type m = Some (JStr ''response.output_item.done'')"
    and "item m = Some it" and "item_type it = Some (JStr ''function_call'')"
    and "pendingCalls s (slot m) = Some c"
    and "strict_eq (call_id c) (item_call_id it)"
    and "functionCallSocket s = Some CLOSING \<or> functionCallSocket s = Some CLOSED"
  shows "dataChannel_onmessage (Msg m) s =
         s\<lparr>pendingCalls := (pendingCalls s)(slot m := None),
            console := console s @ [OaiEvent (Some m), CallExec (name c) (arguments c)]\<rparr>"
  using assms
  by (auto simp add: dataChannel_onmessage_def try_body_def logMessage_oai_events_def
      switch_type_def output_item_done_def ws_send_def)

lemma done_step_raised:
  assumes "msg_type m = Some (JStr ''response.output_item.done'')"
    and "item m = Some it" and "item_type it = Some (JStr ''function_call'')"
    and "pendingCalls s (slot m) = Some c"
    and "strict_eq (call_id c) (item_call_id it)"
    and "functionCallSocket s = Some CONNECTING"
  shows "dataChannel_onmessage (Msg m) s =
         s\<lparr>console := console s @ [OaiEvent (Some m), ConsoleError InvalidStateError,
              LogMessage SenderError (ExnMessage InvalidStateError)]\<rparr>"
  using assms
  by (simp add: dataChannel_onmessage_def try_body_def logMessage_oai_events_def
      switch_type_def output_item_done_def ws_send_def catch_block_def logMessage_def)

lemma done_step_absent:
  assumes "msg_type m = Some (JStr ''response.output_item.done'')"
    and "pendingCalls s (slot m) = None"
  shows "dataChannel_onmessage (Msg m) s = s\<lparr>console := console s @ [OaiEvent (Some m)]\<rparr>"
  using assms
  by (simp add: dataChannel_onmessage_def try_body_def logMessage_oai_events_def
      switch_type_def output_item_done_def split: option.splits)

text \<open>Only a creation fills an empty slot.\<close>

lemma absent_preserved:
  assumes "\<not> creates k d" and "pendingCalls s k = None"
  shows "pendingCalls (dataChannel_onmessage d s) k = None"
proof (cases d)
  case NotJson
  then show ?thesis using assms(2)
    by (simp add: dataChannel_onmessage_def try_body_def catch_block_def logMessage_def)
next
  case JsonNull
  then show ?thesis using assms(2)
    by (simp add: dataChannel_onmessage_def try_body_def catch_block_def logMessage_def
        logMessage_oai_events_def)
next
  case (Msg m)
  show ?thesis using assms Msg
    by (auto simp add: dataChannel_onmessage_def try_body_def catch_block_def logMessage_def
        logMessage_oai_events_def switch_type_def creates_def output_item_added_def
        arguments_delta_def output_item_done_def ws_send_def Let_def
        split: option.splits ready_state.splits completion.splits if_splits)
qed

lemma run_absent_preserved:
  assumes "\<forall>d \<in> set ds. \<not> creates k d" and "pendingCalls s k = None"
  shows "pendingCalls (run ds s) k = None"
  using assms
  by (induction ds arbitrary: s) (auto simp: absent_preserved)

section \<open>The claims\<close>

text \<open>
  Claim C8. An argument-delta event whose slot (\<^verbatim>\<open>output_index\<close>, 0 when absent) has no
  entry in the table changes nothing: the handler's state after the event is the state
  before it (same table, nothing sent, nothing logged), and nothing is raised inside the
  \<^verbatim>\<open>try\<close> either.
\<close>

theorem delta_for_unknown_slot_is_noop:
  assumes "msg_type msg = Some (JStr ''response.function_call_arguments.delta'')"
    and "pendingCalls s (slot msg) = None"
  shows "try_body (Msg msg) s = Normal s \<and> dataChannel_onmessage (Msg msg) s = s"
  using assms
  by (simp add: dataChannel_onmessage_def try_body_def logMessage_oai_events_def
      switch_type_def arguments_delta_def)

theorem delta_for_unknown_slot_is_noop_witness:
  "try_body (Msg (fragment sym_fragment)) in_session = Normal in_session \<and>
   dataChannel_onmessage (Msg (fragment sym_fragment)) in_session = in_session"
  using delta_for_unknown_slot_is_noop [of "fragment sym_fragment" in_session]
  by (simp add: fragment_def in_session_def page_loaded_def slot_def)

text \<open>
  Claim C10. A \<^verbatim>\<open>response.output_item.done\<close> event whose item is absent, or has a type
  other than \<^verbatim>\<open>function_call\<close>, only adds the event's log group to the console: the
  table is the same, so a pending call in the same slot survives, and nothing goes to
  the backend.
\<close>

theorem done_of_other_item_leaves_table:
  assumes "msg_type msg = Some (JStr ''response.output_item.done'')"
    and "case item msg of None \<Rightarrow> True
         | Some it \<Rightarrow> item_type it \<noteq> Some (JStr ''function_call'')"
  shows "dataChannel_onmessage (Msg msg) s = s\<lparr>console := console s @ [OaiEvent (Some msg)]\<rparr> \<and>
         pendingCalls (dataChannel_onmessage (Msg msg) s) = pendingCalls s \<and>
         ws_sent (dataChannel_onmessage (Msg msg) s) = ws_sent s"
  using assms
  by (simp add: dataChannel_onmessage_def try_body_def logMessage_oai_events_def
      switch_type_def output_item_done_def split: option.splits)

theorem done_of_other_item_leaves_table_witness:
  "pendingCalls (dataChannel_onmessage (Msg message_item_done) call_assembled) 0 =
     Some get_stock_call \<and>
   ws_sent (dataChannel_onmessage (Msg message_item_done) call_assembled) = []"
  using done_of_other_item_leaves_table [of message_item_done call_assembled]
  by (simp add: message_item_done_def get_stock_done_def call_assembled_def in_session_def
      page_loaded_def)

text \<open>
  Claim C2. A finalize event whose call id differs from the call id stored in the entry
  of its slot dispatches nothing, although the slot holds an entry: the handler only
  adds the event's log group to the console.
\<close>

theorem call_id_gate:
  assumes "msg_type msg = Some (JStr ''response.output_item.done'')"
    and "item msg = Some it" and "item_type it = Some (JStr ''function_call'')"
    and "pendingCalls s (slot msg) = Some c"
    and "call_id c \<noteq> item_call_id it"
  shows "ws_sent (dataChannel_onmessage (Msg msg) s) = ws_sent s \<and>
         dataChannel_onmessage (Msg msg) s = s\<lparr>console := console s @ [OaiEvent (Some msg)]\<rparr>"
proof -
  have "\<not> strict_eq (call_id c) (item_call_id it)"
    using assms(5) strict_eq_same by blast
  then show ?thesis
    using assms(1-4)
    by (simp add: dataChannel_onmessage_def try_body_def logMessage_oai_events_def
        switch_type_def output_item_done_def)
qed

theorem call_id_gate_witness:
  "ws_sent (dataChannel_onmessage (Msg other_call_done) call_assembled) = [] \<and>
   pendingCalls (dataChannel_onmessage (Msg other_call_done) call_assembled) 0 =
     Some get_stock_call"
  using call_id_gate [of other_call_done
      "get_stock_item\<lparr>item_call_id := Some (JStr ''c2'')\<rparr>" call_assembled get_stock_call]
  by (simp add: other_call_done_def get_stock_done_def get_stock_item_def get_stock_call_def
      call_assembled_def in_session_def page_loaded_def slot_def)

text \<open>
  Claim C1. A function call is created in a slot, then the delta events \<open>ds\<close> for that
  slot arrive with the fragments \<open>fs\<close>, in this order. The entry then holds the
  concatenation \<open>concat fs\<close> as its arguments, and the finalize event that follows (same
  call id, backend socket open) sends exactly that string as \<^verbatim>\<open>arguments\<close>.
\<close>

theorem arguments_assembled_in_order:
  assumes "msg_type a = Some (JStr ''response.output_item.added'') \<or>
           msg_type a = Some (JStr ''response.function_call.created'')"
    and "item a = Some it" and "item_type it = Some (JStr ''function_call'')"
    and "\<forall>d \<in> set ds. msg_type d = Some (JStr ''response.function_call_arguments.delta'') \<and>
           slot d = slot a"
    and "map delta ds = map Some fs"
    and "msg_type m = Some (JStr ''response.output_item.done'')"
    and "item m = Some it'" and "item_type it' = Some (JStr ''function_call'')"
    and "slot m = slot a"
    and "strict_eq (item_call_id it) (item_call_id it')"
    and "functionCallSocket s = Some OPEN"
  shows "pendingCalls (run (Msg a # map Msg ds) s) (slot a) =
           Some \<lparr>call_id = item_call_id it, name = item_name it, arguments = concat fs\<rparr> \<and>
         ws_sent (run (Msg a # map Msg ds @ [Msg m]) s) =
           ws_sent s @ [stringify_object [(''call_id'', item_call_id it),
             (''name'', item_name it), (''arguments'', Some (JStr (concat fs)))]]"
proof -
  let ?empty = "\<lparr>call_id = item_call_id it, name = item_name it, arguments = []\<rparr>"
  let ?full = "\<lparr>call_id = item_call_id it, name = item_name it, arguments = concat fs\<rparr>"
  define s1 where "s1 = dataChannel_onmessage (Msg a) s"
  define s2 where "s2 = run (map Msg ds) s1"
  have s1: "s1 = s\<lparr>pendingCalls := (pendingCalls s)(slot a \<mapsto> ?empty),
      console := console s @ [OaiEvent (Some a), CallStart (item_name it) (item_call_id it)]\<rparr>"
    unfolding s1_def using added_step [OF assms(1-3)] by simp
  have entry1: "pendingCalls s1 (slot a) = Some ?empty"
    by (simp add: s1)
  have "s2 = s1\<lparr>pendingCalls := (pendingCalls s1)(slot a \<mapsto>
      ?empty\<lparr>arguments := foldl append_delta (arguments ?empty) (map delta ds)\<rparr>)\<rparr>"
    unfolding s2_def using assms(4) entry1 by (rule run_deltas)
  then have s2: "s2 = s1\<lparr>pendingCalls := (pendingCalls s1)(slot a \<mapsto> ?full)\<rparr>"
    by (simp add: assms(5) foldl_append_delta)
  have entry2: "pendingCalls s2 (slot m) = Some ?full"
    by (simp add: s2 assms(9))
  have sock: "functionCallSocket s2 = Some OPEN"
    by (simp add: s2 s1 assms(11))
  have sent2: "ws_sent s2 = ws_sent s"
    by (simp add: s2 s1)
  have gate: "strict_eq (call_id ?full) (item_call_id it')"
    by (simp add: assms(10))
  have "dataChannel_onmessage (Msg m) s2 =
      s2\<lparr>ws_sent := ws_sent s2 @ [call_payload ?full],
         pendingCalls := (pendingCalls s2)(slot m := None),
         console := console s2 @ [OaiEvent (Some m), CallExec (name ?full) (arguments ?full)]\<rparr>"
    using assms(6-8) entry2 gate sock by (rule done_step_sent)
  then have "ws_sent (dataChannel_onmessage (Msg m) s2) = ws_sent s @ [call_payload ?full]"
    by (simp add: sent2)
  moreover have "run (Msg a # map Msg ds @ [Msg m]) s = dataChannel_onmessage (Msg m) s2"
    by (simp add: run_append s1_def s2_def)
  moreover have "run (Msg a # map Msg ds) s = s2"
    by (simp add: s1_def s2_def)
  ultimately show ?thesis
    using entry2 by (simp add: call_payload_def assms(9))
qed

theorem arguments_assembled_in_order_witness:
  \<open>pendingCalls (run [Msg get_stock_added, Msg (fragment sym_fragment),
       Msg (fragment abc_fragment)] in_session) 0 = Some get_stock_call \<and>
   ws_sent (run [Msg get_stock_added, Msg (fragment sym_fragment),
       Msg (fragment abc_fragment), Msg get_stock_done] in_session) =
     [JObj [(''call_id'', JStr ''c1''), (''name'', JStr ''get_stock''),
            (''arguments'', JStr ''{"sym":"ABC"}'')]]\<close>
  using arguments_assembled_in_order [of get_stock_added get_stock_item
      "[fragment sym_fragment, fragment abc_fragment]" "[sym_fragment, abc_fragment]"
      get_stock_done get_stock_item in_session]
  by (simp add: get_stock_added_def get_stock_item_def fragment_def sym_fragment_def
      abc_fragment_def get_stock_done_def get_stock_call_def in_session_def page_loaded_def
      slot_def stringify_object_def)

text \<open>
  Claim C3, as the code has it. A finalize that passes the call-id gate removes the entry
  whenever \<^verbatim>\<open>send\<close> returns, that is when the backend socket is open, closing or
  closed. From then on, through any events \<open>ds\<close> that create no call in that slot, the
  slot stays empty, and a second finalize for it sends nothing, whatever the state
  \<open>sock\<close> of the socket is by then.
\<close>

theorem finalize_removes_entry_when_send_returns:
  assumes "msg_type m = Some (JStr ''response.output_item.done'')"
    and "item m = Some it" and "item_type it = Some (JStr ''function_call'')"
    and "pendingCalls s (slot m) = Some c"
    and "strict_eq (call_id c) (item_call_id it)"
    and "functionCallSocket s = Some OPEN \<or> functionCallSocket s = Some CLOSING \<or>
         functionCallSocket s = Some CLOSED"
    and "\<forall>d \<in> set ds. \<not> creates (slot m) d"
    and "msg_type m2 = Some (JStr ''response.output_item.done'')"
    and "slot m2 = slot m"
  shows "pendingCalls (dataChannel_onmessage (Msg m) s) (slot m) = None \<and>
         ws_sent (dataChannel_onmessage (Msg m2)
            ((run ds (dataChannel_onmessage (Msg m) s))\<lparr>functionCallSocket := sock\<rparr>)) =
         ws_sent (run ds (dataChannel_onmessage (Msg m) s))"
proof -
  define s1 where "s1 = dataChannel_onmessage (Msg m) s"
  define s2 where "s2 = (run ds s1)\<lparr>functionCallSocket := sock\<rparr>"
  have removed: "pendingCalls s1 (slot m) = None"
  proof (cases "functionCallSocket s = Some OPEN")
    case True
    then show ?thesis
      unfolding s1_def using done_step_sent [OF assms(1-5)] by simp
  next
    case False
    then have "functionCallSocket s = Some CLOSING \<or> functionCallSocket s = Some CLOSED"
      using assms(6) by simp
    then show ?thesis
      unfolding s1_def using done_step_discarded [OF assms(1-5)] by simp
  qed
  have "pendingCalls (run ds s1) (slot m) = None"
    using assms(7) removed by (rule run_absent_preserved)
  then have "pendingCalls s2 (slot m2) = None"
    by (simp add: s2_def assms(9))
  with assms(8) have "dataChannel_onmessage (Msg m2) s2 =
      s2\<lparr>console := console s2 @ [OaiEvent (Some m2)]\<rparr>"
    by (rule done_step_absent)
  then have "ws_sent (dataChannel_onmessage (Msg m2) s2) = ws_sent (run ds s1)"
    by (simp add: s2_def)
  with removed show ?thesis
    by (simp add: s1_def s2_def)
qed

theorem finalize_removes_entry_when_send_returns_witness:
  "pendingCalls (dataChannel_onmessage (Msg get_stock_done) call_assembled) 0 = None \<and>
   ws_sent (dataChannel_onmessage (Msg get_stock_done)
      ((run [Msg (fragment sym_fragment), NotJson]
          (dataChannel_onmessage (Msg get_stock_done) call_assembled))
         \<lparr>functionCallSocket := Some OPEN\<rparr>)) =
     [call_payload get_stock_call]"
proof -
  have sent: "ws_sent (run [Msg (fragment sym_fragment), NotJson]
      (dataChannel_onmessage (Msg get_stock_done) call_assembled)) =
      [call_payload get_stock_call]"
    by (simp add: dataChannel_onmessage_def try_body_def logMessage_oai_events_def
        switch_type_def output_item_done_def arguments_delta_def ws_send_def catch_block_def
        logMessage_def get_stock_done_def get_stock_item_def get_stock_call_def
        call_assembled_def in_session_def page_loaded_def fragment_def slot_def)
  show ?thesis
    using finalize_removes_entry_when_send_returns [of get_stock_done get_stock_item
        call_assembled get_stock_call "[Msg (fragment sym_fragment), NotJson]"
        get_stock_done "Some OPEN"] sent
    by (simp add: get_stock_done_def get_stock_item_def get_stock_call_def call_assembled_def
        in_session_def page_loaded_def fragment_def slot_def creates_def)
qed

text \<open>
  Claim C3 as stated fails while the backend socket is still connecting: \<^verbatim>\<open>send\<close>
  raises, the \<^verbatim>\<open>delete\<close> after it is skipped and the entry stays; once the socket has
  opened, a second finalize for the slot, with no create in between, dispatches the call.
\<close>

theorem finalize_keeps_entry_when_send_raises:
  "pendingCalls (dataChannel_onmessage (Msg get_stock_done)
      (call_assembled\<lparr>functionCallSocket := Some CONNECTING\<rparr>)) 0 = Some get_stock_call \<and>
   ws_sent (dataChannel_onmessage (Msg get_stock_done)
      ((dataChannel_onmessage (Msg get_stock_done)
          (call_assembled\<lparr>functionCallSocket := Some CONNECTING\<rparr>))
         \<lparr>functionCallSocket := Some OPEN\<rparr>)) =
     [call_payload get_stock_call]"
  by (simp add: dataChannel_onmessage_def try_body_def logMessage_oai_events_def
      switch_type_def output_item_done_def ws_send_def catch_block_def logMessage_def
      get_stock_done_def get_stock_item_def get_stock_call_def call_assembled_def
      in_session_def page_loaded_def slot_def)

text \<open>
  Claim C6, as the code has it. For a finalize that passes the call-id gate, nothing is
  sent to the backend or to the model when the backend socket is not open, and:
  while the socket is connecting, \<^verbatim>\<open>send\<close> raises, the catch block writes the error to
  the console and the entry stays in the table; when the socket is closing or closed,
  \<^verbatim>\<open>send\<close> returns without transmitting, the entry is removed and the console gets the
  same \<^verbatim>\<open>[call exec]\<close> line as after a dispatch, with no error line.
\<close>

theorem finalize_on_socket_not_open:
  assumes "msg_type m = Some (JStr ''response.output_item.done'')"
    and "item m = Some it" and "item_type it = Some (JStr ''function_call'')"
    and "pendingCalls s (slot m) = Some c"
    and "strict_eq (call_id c) (item_call_id it)"
  shows "(functionCallSocket s = Some CONNECTING \<longrightarrow>
            dataChannel_onmessage (Msg m) s =
              s\<lparr>console := console s @ [OaiEvent (Some m), ConsoleError InvalidStateError,
                   LogMessage SenderError (ExnMessage InvalidStateError)]\<rparr>) \<and>
         (functionCallSocket s = Some CLOSING \<or> functionCallSocket s = Some CLOSED \<longrightarrow>
            dataChannel_onmessage (Msg m) s =
              s\<lparr>pendingCalls := (pendingCalls s)(slot m := None),
                 console := console s @ [OaiEvent (Some m), CallExec (name c) (arguments c)]\<rparr>) \<and>
         (functionCallSocket s \<noteq> Some OPEN \<and> functionCallSocket s \<noteq> None \<longrightarrow>
            ws_sent (dataChannel_onmessage (Msg m) s) = ws_sent s \<and>
            dc_sent (dataChannel_onmessage (Msg m) s) = dc_sent s)"
proof (intro conjI impI)
  assume "functionCallSocket s = Some CONNECTING"
  with assms show "dataChannel_onmessage (Msg m) s =
      s\<lparr>console := console s @ [OaiEvent (Some m), ConsoleError InvalidStateError,
           LogMessage SenderError (ExnMessage InvalidStateError)]\<rparr>"
    by (rule done_step_raised)
next
  assume "functionCallSocket s = Some CLOSING \<or> functionCallSocket s = Some CLOSED"
  with assms show "dataChannel_onmessage (Msg m) s =
      s\<lparr>pendingCalls := (pendingCalls s)(slot m := None),
         console := console s @ [OaiEvent (Some m), CallExec (name c) (arguments c)]\<rparr>"
    by (rule done_step_discarded)
next
  assume a: "functionCallSocket s \<noteq> Some OPEN \<and> functionCallSocket s \<noteq> None"
  then obtain st where st: "functionCallSocket s = Some st" "st \<noteq> OPEN"
    by auto
  show "ws_sent (dataChannel_onmessage (Msg m) s) = ws_sent s"
  proof (cases st)
    case CONNECTING
    then show ?thesis using done_step_raised [OF assms] st by simp
  next
    case OPEN
    then show ?thesis using st by simp
  next
    case CLOSING
    then show ?thesis using done_step_discarded [OF assms] st by simp
  next
    case CLOSED
    then show ?thesis using done_step_discarded [OF assms] st by simp
  qed
  show "dc_sent (dataChannel_onmessage (Msg m) s) = dc_sent s"
  proof (cases st)
    case CONNECTING
    then show ?thesis using done_step_raised [OF assms] st by simp
  next
    case OPEN
    then show ?thesis using st by simp
  next
    case CLOSING
    then show ?thesis using done_step_discarded [OF assms] st by simp
  next
    case CLOSED
    then show ?thesis using done_step_discarded [OF assms] st by simp
  qed
qed

theorem finalize_on_socket_not_open_witness:
  "console (dataChannel_onmessage (Msg get_stock_done)
      (call_assembled\<lparr>functionCallSocket := Some CONNECTING\<rparr>)) =
     [OaiEvent (Some get_stock_done), ConsoleError InvalidStateError,
      LogMessage SenderError (ExnMessage InvalidStateError)] \<and>
   ws_sent (dataChannel_onmessage (Msg get_stock_done)
      (call_assembled\<lparr>functionCallSocket := Some CONNECTING\<rparr>)) = [] \<and>
   dc_sent (dataChannel_onmessage (Msg get_stock_done)
      (call_assembled\<lparr>functionCallSocket := Some CONNECTING\<rparr>)) = [] \<and>
   pendingCalls (dataChannel_onmessage (Msg get_stock_done)
      (call_assembled\<lparr>functionCallSocket := Some CLOSED\<rparr>)) 0 = None \<and>
   ws_sent (dataChannel_onmessage (Msg get_stock_done)
      (call_assembled\<lparr>functionCallSocket := Some CLOSED\<rparr>)) = []"
  using finalize_on_socket_not_open [of get_stock_done get_stock_item
      "call_assembled\<lparr>functionCallSocket := Some CONNECTING\<rparr>" get_stock_call]
    finalize_on_socket_not_open [of get_stock_done get_stock_item
      "call_assembled\<lparr>functionCallSocket := Some CLOSED\<rparr>" get_stock_call]
  by (simp add: get_stock_done_def get_stock_item_def get_stock_call_def call_assembled_def
      in_session_def page_loaded_def slot_def)

text \<open>
  Claim C6 as stated fails in both states of a socket that is not open. Connecting: the
  call is retained, not dropped. Closed: the call is dropped, and the console holds the
  event group and the \<^verbatim>\<open>[call exec]\<close> line only, no error.
\<close>

theorem socket_not_open_retains_or_is_silent:
  "pendingCalls (dataChannel_onmessage (Msg get_stock_done)
      (call_assembled\<lparr>functionCallSocket := Some CONNECTING\<rparr>)) 0 = Some get_stock_call \<and>
   console (dataChannel_onmessage (Msg get_stock_done)
      (call_assembled\<lparr>functionCallSocket := Some CLOSED\<rparr>)) =
     [OaiEvent (Some get_stock_done),
      CallExec (Some (JStr ''get_stock'')) (arguments get_stock_call)] \<and>
   ws_sent (dataChannel_onmessage (Msg get_stock_done)
      (call_assembled\<lparr>functionCallSocket := Some CLOSED\<rparr>)) = []"
  by (simp add: dataChannel_onmessage_def try_body_def logMessage_oai_events_def
      switch_type_def output_item_done_def ws_send_def catch_block_def logMessage_def
      get_stock_done_def get_stock_item_def get_stock_call_def call_assembled_def
      in_session_def page_loaded_def slot_def)

text \<open>
  Claim C5, as the code has it. \<^verbatim>\<open>endSession\<close> closes both channels: afterwards neither
  is connecting or open. The table \<^verbatim>\<open>pendingCalls\<close> is not touched: every entry present
  before the teardown is present after it. Nothing is sent on either channel.
\<close>

theorem endSession_closes_channels_keeps_table:
  "pendingCalls (endSession s) = pendingCalls s \<and>
   dataChannel (endSession s) \<noteq> Some OPEN \<and>
   dataChannel (endSession s) \<noteq> Some CONNECTING \<and>
   functionCallSocket (endSession s) \<noteq> Some OPEN \<and>
   functionCallSocket (endSession s) \<noteq> Some CONNECTING \<and>
   ws_sent (endSession s) = ws_sent s \<and> dc_sent (endSession s) = dc_sent s"
proof -
  have "close_channel st \<noteq> OPEN \<and> close_channel st \<noteq> CONNECTING" for st
    by (cases st) simp_all
  then show ?thesis
    by (cases "dataChannel s"; cases "functionCallSocket s"; cases "peerConnection s")
       (simp_all add: endSession_def logMessage_def)
qed

text \<open>
  Claim C5 as stated fails: a call that is pending when the session ends is still in the
  table after \<^verbatim>\<open>endSession\<close>.
\<close>

theorem endSession_keeps_pending_call:
  "pendingCalls (endSession call_assembled) 0 = Some get_stock_call"
  by (simp add: endSession_def logMessage_def call_assembled_def)

text \<open>
  Claim C4. With the realtime channel open, a backend result makes the handler send
  exactly two messages, in this order: a \<^verbatim>\<open>conversation.item.create\<close> whose item is a
  \<^verbatim>\<open>function_call_output\<close> with the result's call id, and a \<^verbatim>\<open>response.create\<close>. On
  success the item has \<^verbatim>\<open>output\<close>, the serialised payload; on failure it has \<^verbatim>\<open>error\<close>,
  the result's message, and no \<^verbatim>\<open>output\<close>.
\<close>

theorem feedback_is_item_then_continuation:
  assumes "dataChannel s = Some OPEN"
    and "response_call_id r = Some cid"
  shows "(status r = Some (JStr ''success'') \<and> result r = Some payload \<longrightarrow>
            functionCallSocket_onmessage stringify (Response r) s =
              Normal (s\<lparr>dc_sent := dc_sent s @
                  [JObj [(''type'', JStr ''conversation.item.create''),
                         (''item'', JObj [(''type'', JStr ''function_call_output''),
                                          (''call_id'', cid),
                                          (''output'', JStr (stringify payload))])],
                   JObj [(''type'', JStr ''response.create'')]],
                console := console s @
                  [LogMessage SenderBackend (ResponseObject (Some r)),
                   LogMessage SenderSystem ResultSent]\<rparr>)) \<and>
         (status r = Some (JStr ''failure'') \<and> message r = Some reason \<longrightarrow>
            functionCallSocket_onmessage stringify (Response r) s =
              Normal (s\<lparr>dc_sent := dc_sent s @
                  [JObj [(''type'', JStr ''conversation.item.create''),
                         (''item'', JObj [(''type'', JStr ''function_call_output''),
                                          (''call_id'', cid),
                                          (''error'', reason)])],
                   JObj [(''type'', JStr ''response.create'')]],
                console := console s @
                  [LogMessage SenderBackend (ResponseObject (Some r)),
                   LogMessage SenderError (ExecFailed (Some reason))]\<rparr>))"
  using assms
  by (simp add: functionCallSocket_onmessage_def dc_send_def logMessage_def
      tool_output_success_def tool_output_failure_def response_create_def
      stringify_object_def)

theorem feedback_is_item_then_continuation_witness:
  \<open>dc_sent (case functionCallSocket_onmessage compact_json (Response price_reply) in_session of
      Normal s \<Rightarrow> s | Throw e s \<Rightarrow> s) =
     [JObj [(''type'', JStr ''conversation.item.create''),
            (''item'', JObj [(''type'', JStr ''function_call_output''),
                             (''call_id'', JStr ''c1''),
                             (''output'', JStr ''{"price":10}'')])],
      JObj [(''type'', JStr ''response.create'')]] \<and>
   dc_sent (case functionCallSocket_onmessage compact_json (Response boom_reply) in_session of
      Normal s \<Rightarrow> s | Throw e s \<Rightarrow> s) =
     [JObj [(''type'', JStr ''conversation.item.create''),
            (''item'', JObj [(''type'', JStr ''function_call_output''),
                             (''call_id'', JStr ''c1''),
                             (''error'', JStr ''boom'')])],
      JObj [(''type'', JStr ''response.create'')]]\<close>
proof -
  have rendered: \<open>compact_json (JObj [(''price'', JNum 10)]) = ''{"price":10}''\<close>
    by (simp add: quoted_def digit_char_def)
  show ?thesis
    using feedback_is_item_then_continuation [of in_session price_reply "JStr ''c1''"
        "JObj [(''price'', JNum 10)]" compact_json "JStr ''boom''"]
      feedback_is_item_then_continuation [of in_session boom_reply "JStr ''c1''"
        "JObj [(''price'', JNum 10)]" compact_json "JStr ''boom''"]
      rendered
    by (simp add: price_reply_def boom_reply_def in_session_def page_loaded_def)
qed

text \<open>
  Claim C9. With the realtime channel open, every parsed reply whose \<^verbatim>\<open>status\<close> is not
  the string \<^verbatim>\<open>success\<close> (absent, \<^verbatim>\<open>null\<close>, any other value) takes the failure branch:
  the item is built with \<^verbatim>\<open>error: response.message\<close> and sent, then \<^verbatim>\<open>response.create\<close>
  is sent; no status is ignored or rejected. The serialised item has the reply's message
  as its \<^verbatim>\<open>error\<close> property (no such property when the message is absent) and never an
  \<^verbatim>\<open>output\<close> property.
\<close>

theorem other_status_takes_failure_path:
  assumes "dataChannel s = Some OPEN"
    and "status r \<noteq> Some (JStr ''success'')"
  shows "functionCallSocket_onmessage stringify (Response r) s =
           Normal (s\<lparr>dc_sent := dc_sent s @
               [stringify_object
                  [(''type'', Some (JStr ''conversation.item.create'')),
                   (''item'', Some (stringify_object
                      [(''type'', Some (JStr ''function_call_output'')),
                       (''call_id'', response_call_id r),
                       (''error'', message r)]))],
                stringify_object [(''type'', Some (JStr ''response.create''))]],
             console := console s @
               [LogMessage SenderBackend (ResponseObject (Some r)),
                LogMessage SenderError (ExecFailed (message r))]\<rparr>) \<and>
         field (stringify_object
                  [(''type'', Some (JStr ''function_call_output'')),
                   (''call_id'', response_call_id r),
                   (''error'', message r)]) ''error'' = message r \<and>
         field (stringify_object
                  [(''type'', Some (JStr ''function_call_output'')),
                   (''call_id'', response_call_id r),
                   (''error'', message r)]) ''output'' = None"
proof -
  have "functionCallSocket_onmessage stringify (Response r) s =
           Normal (s\<lparr>dc_sent := dc_sent s @ [tool_output_failure r, response_create],
             console := console s @
               [LogMessage SenderBackend (ResponseObject (Some r)),
                LogMessage SenderError (ExecFailed (message r))]\<rparr>)"
    using assms
    by (simp add: functionCallSocket_onmessage_def dc_send_def logMessage_def)
  moreover have "field (stringify_object
                  [(''type'', Some (JStr ''function_call_output'')),
                   (''call_id'', response_call_id r),
                   (''error'', message r)]) ''error'' = message r"
    by (cases "response_call_id r"; cases "message r") (simp_all add: stringify_object_def)
  moreover have "field (stringify_object
                  [(''type'', Some (JStr ''function_call_output'')),
                   (''call_id'', response_call_id r),
                   (''error'', message r)]) ''output'' = None"
    by (cases "response_call_id r"; cases "message r") (simp_all add: stringify_object_def)
  ultimately show ?thesis
    by (simp add: tool_output_failure_def response_create_def)
qed

theorem other_status_takes_failure_path_witness:
  "functionCallSocket_onmessage compact_json (Response bare_reply) in_session =
     Normal (in_session\<lparr>dc_sent :=
         [JObj [(''type'', JStr ''conversation.item.create''),
                (''item'', JObj [(''type'', JStr ''function_call_output''),
                                 (''call_id'', JStr ''c1'')])],
          JObj [(''type'', JStr ''response.create'')]],
       console :=
         [LogMessage SenderBackend (ResponseObject (Some bare_reply)),
          LogMessage SenderError (ExecFailed None)]\<rparr>)"
  using other_status_takes_failure_path [of in_session bare_reply compact_json]
  by (simp add: bare_reply_def in_session_def page_loaded_def stringify_object_def)

text \<open>
  Claim C7 against the code. A success result arrives after the realtime channel has
  closed: the first \<^verbatim>\<open>dataChannel.send\<close> raises \<^verbatim>\<open>InvalidStateError\<close>, and the handler,
  which has no \<^verbatim>\<open>try\<close>, ends there with the exception unhandled. The second send is
  not reached, nothing is transmitted, and the only console line of the handler is the
  one that logs the reply.
\<close>

theorem feedback_on_closed_channel_raises:
  "functionCallSocket_onmessage compact_json (Response price_reply)
     (in_session\<lparr>dataChannel := Some CLOSED\<rparr>) =
   Throw InvalidStateError
     (in_session\<lparr>dataChannel := Some CLOSED,
        console := [LogMessage SenderBackend (ResponseObject (Some price_reply))]\<rparr>)"
  by (simp add: functionCallSocket_onmessage_def dc_send_def logMessage_def price_reply_def
      in_session_def page_loaded_def)

end
